theory Spec2Isabelle
  imports Complex_Main "HOL-Library.Multiset"
begin

section \<open>Text of a cell: digits, blanks, decimal numbers\<close>

text \<open>
  The dashboard script \<^verbatim>\<open>d1.py\<close> reads one CSV table with pandas, cleans three numeric
  columns and the \<^verbatim>\<open>Geolocation\<close> column, and derives filtered and grouped views.
  Text is modelled as \<^typ>\<open>string\<close> (a list of 8-bit characters): the digit class
  \<^verbatim>\<open>\d\<close> and the blanks of \<^verbatim>\<open>str.strip\<close> are taken on ASCII. A Python float
  is modelled by the rational number its decimal text denotes: rounding to a double,
  infinities and the spellings \<^verbatim>\<open>inf\<close>, \<^verbatim>\<open>nan\<close> of a number are outside the model.
\<close>

definition is_digit :: "char \<Rightarrow> bool" where
  "is_digit c = (c \<in> set ''0123456789'')"

definition digit_val :: "char \<Rightarrow> nat" where
  "digit_val c = of_char c - 48"

definition digits_val :: "string \<Rightarrow> nat" where
  "digits_val ds = foldl (\<lambda>a c. 10 * a + digit_val c) 0 ds"

text \<open>
  Blanks of Python's \<^verbatim>\<open>str.strip()\<close> (tab, line feed, vertical tab, form feed, carriage
  return, the four separators 0x1C to 0x1F, space), and blanks of the C parser pandas
  uses for numbers (tab to carriage return, space).
\<close>

definition py_space :: "char \<Rightarrow> bool" where
  "py_space c =
     (c \<in> set [CHR 0x09, CHR 0x0A, CHR 0x0B, CHR 0x0C, CHR 0x0D,
                CHR 0x1C, CHR 0x1D, CHR 0x1E, CHR 0x1F, CHR 0x20])"

definition c_space :: "char \<Rightarrow> bool" where
  "c_space c = (c \<in> set [CHR 0x09, CHR 0x0A, CHR 0x0B, CHR 0x0C, CHR 0x0D, CHR 0x20])"

definition strip_by :: "(char \<Rightarrow> bool) \<Rightarrow> string \<Rightarrow> string" where
  "strip_by sp s = rev (dropWhile sp (rev (dropWhile sp s)))"

definition py_strip :: "string \<Rightarrow> string" where
  "py_strip s = strip_by py_space s"

definition split_sign :: "string \<Rightarrow> bool \<times> string" where
  "split_sign s =
     (case s of
        [] \<Rightarrow> (False, [])
      | c # r \<Rightarrow>
          if c = CHR ''-'' then (True, r)
          else if c = CHR ''+'' then (False, r)
          else (False, s))"

definition parse_exponent :: "string \<Rightarrow> int option" where
  "parse_exponent r =
     (case r of
        [] \<Rightarrow> Some 0
      | c # t \<Rightarrow>
          if c = CHR ''e'' \<or> c = CHR ''E'' then
            (case split_sign t of
               (neg, ds) \<Rightarrow>
                 if ds \<noteq> [] \<and> list_all is_digit ds
                 then Some (if neg then - int (digits_val ds) else int (digits_val ds))
                 else None)
          else None)"

text \<open>
  Decimal notation: an optional sign, digits with at most one decimal point and at least
  one digit, an optional exponent. \<open>None\<close> is the parse failure (\<^verbatim>\<open>ValueError\<close> of
  \<^verbatim>\<open>float()\<close>, the coerced failure of \<^verbatim>\<open>pd.to_numeric\<close>).
\<close>

definition parse_decimal :: "string \<Rightarrow> rat option" where
  "parse_decimal s =
     (case split_sign s of
        (neg, u) \<Rightarrow>
          let ip = takeWhile is_digit u;
              r1 = dropWhile is_digit u;
              fp = (case r1 of
                      [] \<Rightarrow> []
                    | c # t \<Rightarrow> if c = CHR ''.'' then takeWhile is_digit t else []);
              r2 = (case r1 of
                      [] \<Rightarrow> []
                    | c # t \<Rightarrow> if c = CHR ''.'' then dropWhile is_digit t else r1)
          in if ip = [] \<and> fp = [] then None
             else (case parse_exponent r2 of
                     None \<Rightarrow> None
                   | Some e \<Rightarrow>
                       Some ((if neg then - 1 else 1)
                             * (of_nat (digits_val ip)
                                + of_nat (digits_val fp) / 10 ^ length fp)
                             * (10 powi e))))"

text \<open>\<^verbatim>\<open>float(s)\<close> on text: blanks around the number are ignored.\<close>

definition py_float :: "string \<Rightarrow> rat option" where
  "py_float s = parse_decimal (py_strip s)"

section \<open>The pattern of \<^verbatim>\<open>extract_coords\<close>\<close>

text \<open>
  \<^verbatim>\<open>re.findall(r"[-+]?\d*\.\d+|\d+", text)\<close>. At a position the first alternative
  \<^verbatim>\<open>[-+]?\d*\.\d+\<close> is tried, then the second \<^verbatim>\<open>\d+\<close>. Backtracking cannot rescue
  the first alternative: after fewer digits than the whole run the next character is a
  digit, not the point, and without the sign the sign character is neither a digit nor
  the point. So each alternative is one greedy attempt. The sign belongs to the first
  alternative only. A match returns the matched text and the text after it.
\<close>

definition alt_decimal :: "string \<Rightarrow> (string \<times> string) option" where
  "alt_decimal s =
     (let sg = (case s of
                  [] \<Rightarrow> []
                | c # r \<Rightarrow> if c = CHR ''-'' \<or> c = CHR ''+'' then [c] else []);
          u = drop (length sg) s;
          ip = takeWhile is_digit u
      in case dropWhile is_digit u of
           [] \<Rightarrow> None
         | c # t \<Rightarrow>
             if c = CHR ''.'' \<and> takeWhile is_digit t \<noteq> []
             then Some (sg @ ip @ [c] @ takeWhile is_digit t, dropWhile is_digit t)
             else None)"

definition alt_integer :: "string \<Rightarrow> (string \<times> string) option" where
  "alt_integer s =
     (if takeWhile is_digit s = [] then None
      else Some (takeWhile is_digit s, dropWhile is_digit s))"

definition match_here :: "string \<Rightarrow> (string \<times> string) option" where
  "match_here s = (case alt_decimal s of Some m \<Rightarrow> Some m | None \<Rightarrow> alt_integer s)"

text \<open>
  The scan: a match is collected and the scan goes on after it; where nothing matches,
  the scan moves one character on. A match is never empty, so the scan ends.
\<close>

function findall :: "string \<Rightarrow> string list" where
  "findall [] = []"
| "findall (c # t) =
     (case match_here (c # t) of
        Some (m, rest) \<Rightarrow> m # findall rest
      | None \<Rightarrow> findall t)"
  by pat_completeness auto
termination
proof (relation "measure length")
  show "wf (measure length)" by simp
next
  fix c :: char and t :: string and x2 :: "string \<times> string" and m rest :: string
  assume m: "match_here (c # t) = Some x2" and x2: "(m, rest) = x2"
  have a: "alt_integer (c # t) = Some (m, rest) \<Longrightarrow> length rest < length (c # t)"
    by (auto simp: alt_integer_def less_Suc_eq_le length_dropWhile_le split: if_splits)
  have b: "alt_decimal (c # t) = Some (m, rest) \<Longrightarrow> length rest < length (c # t)"
  proof -
    assume d: "alt_decimal (c # t) = Some (m, rest)"
    define sg where "sg = (if c = CHR ''-'' \<or> c = CHR ''+'' then [c] else [])"
    define u where "u = drop (length sg) (c # t)"
    from d obtain x r where r: "dropWhile is_digit u = x # r" and rest: "rest = dropWhile is_digit r"
      by (auto simp: alt_decimal_def Let_def sg_def u_def split: list.splits if_splits)
    have "length rest \<le> length r" unfolding rest by (rule length_dropWhile_le)
    moreover have "length (x # r) \<le> length u" unfolding r[symmetric] by (rule length_dropWhile_le)
    moreover have "length u \<le> length (c # t)" unfolding u_def by simp
    ultimately show ?thesis by simp
  qed
  from m x2 a b show "(rest, c # t) \<in> measure length"
    by (auto simp: match_here_def split: option.splits)
next
  fix c :: char and t :: string
  show "(t, c # t) \<in> measure length" by simp
qed

section \<open>\<^verbatim>\<open>extract_coords\<close>\<close>

text \<open>
  \<^verbatim>\<open>
  def extract_coords(point_str):
      try:
          if pd.isna(point_str) or str(point_str).strip() == "":
              return None, None
          coords = re.findall(r"[-+]?\d*\.\d+|\d+", str(point_str))
          if len(coords) >= 2:
              return float(coords[1]), float(coords[0])
      except:
          return None, None
      return None, None
  \<close>
  The argument is a cell of the \<^verbatim>\<open>Geolocation\<close> column: \<open>None\<close> is the missing cell
  (\<^verbatim>\<open>pd.isna\<close>), \<open>Some s\<close> a cell whose text \<^verbatim>\<open>str(point_str)\<close> is \<open>s\<close>. The result
  is the pair (lat, lon). A \<^verbatim>\<open>float()\<close> that raises is caught by the \<^verbatim>\<open>except\<close>.
\<close>

definition extract_coords :: "string option \<Rightarrow> rat option \<times> rat option" where
  "extract_coords point_str =
     (case point_str of
        None \<Rightarrow> (None, None)
      | Some s \<Rightarrow>
          if py_strip s = [] then (None, None)
          else (case findall s of
                  c0 # c1 # _ \<Rightarrow>
                    (case py_float c1 of
                       None \<Rightarrow> (None, None)
                     | Some la \<Rightarrow>
                         (case py_float c0 of
                            None \<Rightarrow> (None, None)
                          | Some lo \<Rightarrow> (Some la, Some lo)))
                | _ \<Rightarrow> (None, None)))"

section \<open>Tables\<close>

text \<open>
  A value of a cell: missing (\<^verbatim>\<open>NaN\<close>, \<^verbatim>\<open>None\<close>), text or a number. A column has a
  dtype, as in pandas: \<open>ObjectCol\<close> is dtype \<^verbatim>\<open>object\<close>, whose cells
  \<^verbatim>\<open>read_csv\<close> fills with text or leaves missing; \<open>FloatCol\<close> is a numeric dtype.
  A table is the list of its named columns, in column order; a row is a position in
  every column.
\<close>

datatype pyval = NaN | Str string | Num rat

datatype column = ObjectCol "string option list" | FloatCol "rat option list"

type_synonym frame = "(string \<times> column) list"

datatype error = FileError string | KeyError string | ValueError | TypeError

definition cells :: "column \<Rightarrow> pyval list" where
  "cells c =
     (case c of
        ObjectCol xs \<Rightarrow> map (\<lambda>x. case x of None \<Rightarrow> NaN | Some s \<Rightarrow> Str s) xs
      | FloatCol ys \<Rightarrow> map (\<lambda>y. case y of None \<Rightarrow> NaN | Some r \<Rightarrow> Num r) ys)"

definition col_len :: "column \<Rightarrow> nat" where
  "col_len c = (case c of ObjectCol xs \<Rightarrow> length xs | FloatCol ys \<Rightarrow> length ys)"

text \<open>Every column of a table has the same number of rows.\<close>

definition same_len :: "frame \<Rightarrow> bool" where
  "same_len d = list_all (\<lambda>p. list_all (\<lambda>q. col_len (snd p) = col_len (snd q)) d) d"

text \<open>\<^verbatim>\<open>df[name]\<close>: the column, or \<^verbatim>\<open>KeyError\<close>.\<close>

definition getcol :: "frame \<Rightarrow> string \<Rightarrow> error + column" where
  "getcol d n = (case map_of d n of None \<Rightarrow> Inl (KeyError n) | Some c \<Rightarrow> Inr c)"

text \<open>
  \<^verbatim>\<open>df[name] = column\<close>: an existing column is overwritten where it stands, a new one is
  added after the last.
\<close>

definition set_col :: "string \<Rightarrow> column \<Rightarrow> frame \<Rightarrow> frame" where
  "set_col n c d =
     (if map_of d n = None then d @ [(n, c)]
      else map (\<lambda>p. if fst p = n then (n, c) else p) d)"

section \<open>\<^verbatim>\<open>load_data\<close>\<close>

text \<open>
  \<^verbatim>\<open>
  for col in ['Data_Value', 'Low_Confidence_Limit', 'High_Confidence_Limit']:
      if col in df.columns:
          if df[col].dtype == 'object':
              df[col] = df[col].astype(str).str.replace(',', '.')
          df[col] = pd.to_numeric(df[col], errors='coerce')
  \<close>
  \<^verbatim>\<open>astype(str)\<close> writes a missing cell as the text \<^verbatim>\<open>nan\<close>. \<^verbatim>\<open>pd.to_numeric\<close>
  with \<^verbatim>\<open>errors='coerce'\<close> parses each text (blanks around it ignored) and makes the
  cell missing where the parse fails; a numeric column is returned as it is.
\<close>

definition replace_comma :: "string \<Rightarrow> string" where
  "replace_comma s = map (\<lambda>c. if c = CHR '','' then CHR ''.'' else c) s"

definition astype_str :: "string option \<Rightarrow> string" where
  "astype_str x = (case x of None \<Rightarrow> ''nan'' | Some s \<Rightarrow> s)"

definition to_numeric_text :: "string \<Rightarrow> rat option" where
  "to_numeric_text s = parse_decimal (strip_by c_space s)"

definition str_replace_comma :: "column \<Rightarrow> column" where
  "str_replace_comma c =
     (case c of
        ObjectCol xs \<Rightarrow> ObjectCol (map (\<lambda>x. Some (replace_comma (astype_str x))) xs)
      | FloatCol ys \<Rightarrow> FloatCol ys)"

definition to_numeric :: "column \<Rightarrow> column" where
  "to_numeric c =
     (case c of
        ObjectCol xs \<Rightarrow>
          FloatCol (map (\<lambda>x. case x of None \<Rightarrow> None | Some s \<Rightarrow> to_numeric_text s) xs)
      | FloatCol ys \<Rightarrow> FloatCol ys)"

definition clean_column :: "column \<Rightarrow> column" where
  "clean_column c =
     to_numeric (case c of ObjectCol xs \<Rightarrow> str_replace_comma c | FloatCol ys \<Rightarrow> c)"

definition numeric_cols :: "string list" where
  "numeric_cols = [''Data_Value'', ''Low_Confidence_Limit'', ''High_Confidence_Limit'']"

definition clean_step :: "frame \<Rightarrow> string \<Rightarrow> frame" where
  "clean_step d col =
     (case map_of d col of None \<Rightarrow> d | Some c \<Rightarrow> set_col col (clean_column c) d)"

text \<open>
  \<^verbatim>\<open>
  if 'Geolocation' in df.columns:
      coords = df['Geolocation'].apply(extract_coords)
      df[['lat', 'lon']] = pd.DataFrame(coords.tolist(), index=df.index)
  \<close>
  A cell of a numeric \<^verbatim>\<open>Geolocation\<close> column reaches \<^verbatim>\<open>extract_coords\<close> as a float,
  of which the function reads \<^verbatim>\<open>str()\<close>: the parameter \<open>repr\<close> is that rendering,
  which the model leaves open. A table without rows gives an empty list of pairs, the
  \<^verbatim>\<open>DataFrame\<close> built from it has no column, and assigning it to the two names raises
  \<^verbatim>\<open>ValueError\<close> (columns must be same length as key).
\<close>

definition geo_cells :: "(rat \<Rightarrow> string) \<Rightarrow> column \<Rightarrow> string option list" where
  "geo_cells repr c =
     (case c of ObjectCol xs \<Rightarrow> xs | FloatCol ys \<Rightarrow> map (map_option repr) ys)"

definition geo_step :: "(rat \<Rightarrow> string) \<Rightarrow> frame \<Rightarrow> error + frame" where
  "geo_step repr d =
     (case map_of d ''Geolocation'' of
        None \<Rightarrow> Inr d
      | Some g \<Rightarrow>
          let coords = map extract_coords (geo_cells repr g)
          in if coords = [] then Inl ValueError
             else Inr (set_col ''lon'' (FloatCol (map snd coords))
                        (set_col ''lat'' (FloatCol (map fst coords)) d)))"

text \<open>
  \<^verbatim>\<open>
  def load_data():
      try:
          df = pd.read_csv(file_path, sep=None, engine='python', on_bad_lines='skip')
          ...
          return df
      except Exception as e:
          st.error(f"Error al cargar el archivo: {e}")
          return None
  \<close>
  Reading the file is the input of the model: \<open>Inl e\<close> when \<^verbatim>\<open>read_csv\<close> raises,
  \<open>Inr d\<close> the table it returns. The result is the table or \<open>None\<close>, with the
  \<^verbatim>\<open>st.error\<close> messages written.
\<close>

datatype message = LoadError error | InitError

definition load_data :: "(rat \<Rightarrow> string) \<Rightarrow> error + frame \<Rightarrow> frame option \<times> message list" where
  "load_data repr r =
     (case r of
        Inl e \<Rightarrow> (None, [LoadError e])
      | Inr d \<Rightarrow>
          (case geo_step repr (foldl clean_step d numeric_cols) of
             Inl e \<Rightarrow> (None, [LoadError e])
           | Inr d' \<Rightarrow> (Some d', [])))"

section \<open>Filters\<close>

text \<open>
  \<^verbatim>\<open>df_mapa = df[(df['Topic'] == tema_sel) & (df['Age Group'] == edad_sel)]\<close> and
  \<^verbatim>\<open>df_filtered = df_mapa[df_mapa['LocationDesc'].isin(estados_sel)]\<close>. A comparison
  gives one truth value per row; a missing cell equals nothing, but \<^verbatim>\<open>isin\<close> finds a
  missing cell when the list holds the missing value. Indexing by a mask keeps the
  rows where it is true, in their order, in every column.
\<close>

definition series_eq :: "column \<Rightarrow> pyval \<Rightarrow> bool list" where
  "series_eq c v = map (\<lambda>x. x \<noteq> NaN \<and> x = v) (cells c)"

definition isin :: "column \<Rightarrow> pyval list \<Rightarrow> bool list" where
  "isin c vs = map (\<lambda>x. x \<in> set vs) (cells c)"

definition mask_and :: "bool list \<Rightarrow> bool list \<Rightarrow> bool list" where
  "mask_and m1 m2 = map (\<lambda>p. fst p \<and> snd p) (zip m1 m2)"

definition keep :: "bool list \<Rightarrow> 'a list \<Rightarrow> 'a list" where
  "keep m xs = map fst (filter snd (zip xs m))"

definition select_col :: "bool list \<Rightarrow> column \<Rightarrow> column" where
  "select_col m c =
     (case c of ObjectCol xs \<Rightarrow> ObjectCol (keep m xs) | FloatCol ys \<Rightarrow> FloatCol (keep m ys))"

definition select_rows :: "bool list \<Rightarrow> frame \<Rightarrow> frame" where
  "select_rows m d = map (\<lambda>p. (fst p, select_col m (snd p))) d"

definition df_mapa :: "frame \<Rightarrow> pyval \<Rightarrow> pyval \<Rightarrow> error + frame" where
  "df_mapa df tema_sel edad_sel =
     (case getcol df ''Topic'' of
        Inl e \<Rightarrow> Inl e
      | Inr t \<Rightarrow>
          (case getcol df ''Age Group'' of
             Inl e \<Rightarrow> Inl e
           | Inr a \<Rightarrow>
               Inr (select_rows (mask_and (series_eq t tema_sel) (series_eq a edad_sel)) df)))"

definition df_filtered :: "frame \<Rightarrow> pyval list \<Rightarrow> error + frame" where
  "df_filtered dm estados_sel =
     (case getcol dm ''LocationDesc'' of
        Inl e \<Rightarrow> Inl e
      | Inr l \<Rightarrow> Inr (select_rows (isin l estados_sel) dm))"

text \<open>
  The specification's one-step filter, for comparison: the rows of the table that
  satisfy the primary predicate and the secondary one.
\<close>

definition select_direct :: "frame \<Rightarrow> pyval \<Rightarrow> pyval \<Rightarrow> pyval list \<Rightarrow> error + frame" where
  "select_direct df tema_sel edad_sel estados_sel =
     (case getcol df ''Topic'' of
        Inl e \<Rightarrow> Inl e
      | Inr t \<Rightarrow>
          (case getcol df ''Age Group'' of
             Inl e \<Rightarrow> Inl e
           | Inr a \<Rightarrow>
               (case getcol df ''LocationDesc'' of
                  Inl e \<Rightarrow> Inl e
                | Inr l \<Rightarrow>
                    Inr (select_rows
                          (mask_and (mask_and (series_eq t tema_sel) (series_eq a edad_sel))
                             (isin l estados_sel)) df))))"

section \<open>The grouped mean\<close>

text \<open>
  \<^verbatim>\<open>df_geo = df_mapa.groupby(['LocationAbbr', 'LocationDesc'])['Data_Value'].mean().reset_index()\<close>.
  pandas walks the rows once: a row with a missing key belongs to no group
  (\<^verbatim>\<open>dropna=True\<close>); for the group of any other row it adds a present value to the
  group's sum and count; at the end a group's mean is its sum over its count, and missing
  when the count is zero. The result is read as the mapping from key to mean; the order
  in which pandas lists the groups (ascending by key) is not modelled. The mean of an
  \<^verbatim>\<open>object\<close> column raises \<^verbatim>\<open>TypeError\<close>.
\<close>

type_synonym key = "pyval \<times> pyval"

definition group_step :: "(key \<rightharpoonup> rat \<times> nat) \<Rightarrow> key \<times> rat option \<Rightarrow> (key \<rightharpoonup> rat \<times> nat)" where
  "group_step acc row =
     (case row of
        (k, v) \<Rightarrow>
          if fst k = NaN \<or> snd k = NaN then acc
          else (case (case acc k of None \<Rightarrow> (0, 0) | Some sn \<Rightarrow> sn) of
                  (sumx, nobs) \<Rightarrow>
                    (case v of
                       None \<Rightarrow> acc(k \<mapsto> (sumx, nobs))
                     | Some x \<Rightarrow> acc(k \<mapsto> (sumx + x, nobs + 1)))))"

definition finish_mean :: "rat \<times> nat \<Rightarrow> pyval" where
  "finish_mean sn = (if snd sn = 0 then NaN else Num (fst sn / of_nat (snd sn)))"

definition group_mean :: "(key \<times> rat option) list \<Rightarrow> (key \<rightharpoonup> pyval)" where
  "group_mean rows = map_option finish_mean \<circ> foldl group_step Map.empty rows"

definition df_geo :: "frame \<Rightarrow> error + (key \<rightharpoonup> pyval)" where
  "df_geo dm =
     (case getcol dm ''LocationAbbr'' of
        Inl e \<Rightarrow> Inl e
      | Inr a \<Rightarrow>
          (case getcol dm ''LocationDesc'' of
             Inl e \<Rightarrow> Inl e
           | Inr l \<Rightarrow>
               (case getcol dm ''Data_Value'' of
                  Inl e \<Rightarrow> Inl e
                | Inr (ObjectCol xs) \<Rightarrow> Inl TypeError
                | Inr (FloatCol vs) \<Rightarrow> Inr (group_mean (zip (zip (cells a) (cells l)) vs)))))"

section \<open>The script\<close>

text \<open>
  \<^verbatim>\<open>
  df = load_data()
  if df is not None:
      ... df_mapa ... df_geo ... df_filtered ...
  else:
      st.error("No se pudo inicializar el dashboard. ...")
  \<close>
  The choices of the three widgets are inputs. The outcome is the list of
  \<^verbatim>\<open>st.error\<close> messages and, when a table was loaded, the three views (or the
  exception that ended the script).
\<close>

definition views :: "frame \<Rightarrow> pyval \<Rightarrow> pyval \<Rightarrow> pyval list \<Rightarrow> error + (frame \<times> (key \<rightharpoonup> pyval) \<times> frame)" where
  "views df tema_sel edad_sel estados_sel =
     (case df_mapa df tema_sel edad_sel of
        Inl e \<Rightarrow> Inl e
      | Inr dm \<Rightarrow>
          (case df_geo dm of
             Inl e \<Rightarrow> Inl e
           | Inr g \<Rightarrow>
               (case df_filtered dm estados_sel of
                  Inl e \<Rightarrow> Inl e
                | Inr f \<Rightarrow> Inr (dm, g, f))))"

definition dashboard ::
  "(rat \<Rightarrow> string) \<Rightarrow> error + frame \<Rightarrow> pyval \<Rightarrow> pyval \<Rightarrow> pyval list
     \<Rightarrow> message list \<times> (error + (frame \<times> (key \<rightharpoonup> pyval) \<times> frame)) option" where
  "dashboard repr r tema_sel edad_sel estados_sel =
     (case load_data repr r of
        (None, ms) \<Rightarrow> (ms @ [InitError], None)
      | (Some df, ms) \<Rightarrow> (ms, Some (views df tema_sel edad_sel estados_sel)))"

section \<open>Notions of the specification\<close>

text \<open>
  A key is complete when both of its parts are present. The present values of a group are
  the \<^verbatim>\<open>Data_Value\<close> cells, in row order, of the rows with that key. \<open>no_repr\<close> is
  passed for the rendering of floats in examples whose \<^verbatim>\<open>Geolocation\<close> cells are text,
  where it is never applied.
\<close>

definition has_key :: "key \<Rightarrow> bool" where
  "has_key k = (fst k \<noteq> NaN \<and> snd k \<noteq> NaN)"

definition group_values :: "key \<Rightarrow> (key \<times> rat option) list \<Rightarrow> rat list" where
  "group_values k rows =
     concat (map (\<lambda>r. if fst r = k then (case snd r of None \<Rightarrow> [] | Some x \<Rightarrow> [x]) else []) rows)"

text \<open>
  A reordering of the rows of a table: \<open>p\<close> lists the old positions in their new order,
  and every column is read in that order.
\<close>

definition reorder :: "nat list \<Rightarrow> 'a list \<Rightarrow> 'a list" where
  "reorder p xs = map (\<lambda>i. xs ! i) p"



definition no_repr :: "rat \<Rightarrow> string" where
  "no_repr r = []"

section \<open>Evaluation and updates of a table\<close>

lemmas text_eval =
  py_float_def py_strip_def strip_by_def py_space_def c_space_def parse_decimal_def
  split_sign_def parse_exponent_def digits_val_def digit_val_def is_digit_def
  match_here_def alt_decimal_def alt_integer_def

lemma map_of_set_col: "map_of (set_col n c d) k = (if k = n then Some c else map_of d k)"
proof (cases "map_of d n")
  case None
  then show ?thesis by (auto simp: set_col_def map_add_def split: option.splits)
next
  case (Some c0)
  have "map_of (map (\<lambda>p. if fst p = n then (n, c) else p) d) k
        = (if k = n then map_option (\<lambda>_. c) (map_of d n) else map_of d k)"
    by (induction d) auto
  with Some show ?thesis by (simp add: set_col_def)
qed

lemma names_set_col:
  "map fst (set_col n c d) = (if map_of d n = None then map fst d @ [n] else map fst d)"
  by (auto simp: set_col_def comp_def intro!: map_idI)

lemma map_of_clean_step:
  "map_of (clean_step d col) k
   = (if k = col then map_option clean_column (map_of d col) else map_of d k)"
  by (auto simp: clean_step_def map_of_set_col split: option.splits)

lemma names_clean_step: "map fst (clean_step d col) = map fst d"
  by (auto simp: clean_step_def names_set_col split: option.splits)

lemma map_of_cleaned:
  "map_of (foldl clean_step d numeric_cols) k
   = (if k \<in> set numeric_cols then map_option clean_column (map_of d k) else map_of d k)"
  by (simp add: numeric_cols_def map_of_clean_step)

lemma names_cleaned: "map fst (foldl clean_step d numeric_cols) = map fst d"
  by (simp add: numeric_cols_def names_clean_step)

lemma geolocation_not_numeric: "''Geolocation'' \<notin> set numeric_cols"
  by (simp add: numeric_cols_def)

section \<open>Coordinates\<close>

lemma extract_coords_both: "(fst (extract_coords x) = None) = (snd (extract_coords x) = None)"
  by (simp add: extract_coords_def split: option.splits list.splits)

lemma extract_coords_few: "length (findall s) < 2 \<Longrightarrow> extract_coords (Some s) = (None, None)"
  by (cases "findall s" rule: list.exhaust; cases "tl (findall s)")
     (auto simp: extract_coords_def)

lemma extract_coords_blank: "py_strip s = [] \<Longrightarrow> extract_coords (Some s) = (None, None)"
  by (simp add: extract_coords_def)

lemma geo_step_latlon:
  assumes "geo_step repr d = Inr d'" and "map_of d ''Geolocation'' = Some g"
  shows "map_of d' ''lat'' = Some (FloatCol (map (\<lambda>x. fst (extract_coords x)) (geo_cells repr g)))"
    and "map_of d' ''lon'' = Some (FloatCol (map (\<lambda>x. snd (extract_coords x)) (geo_cells repr g)))"
  using assms by (auto simp: geo_step_def Let_def map_of_set_col comp_def split: if_splits)

lemma load_data_latlon:
  assumes "load_data repr (Inr d) = (Some d', ms)" and "map_of d ''Geolocation'' = Some g"
  shows "map_of d' ''lat'' = Some (FloatCol (map (\<lambda>x. fst (extract_coords x)) (geo_cells repr g)))"
    and "map_of d' ''lon'' = Some (FloatCol (map (\<lambda>x. snd (extract_coords x)) (geo_cells repr g)))"
proof -
  from assms(1) have g: "geo_step repr (foldl clean_step d numeric_cols) = Inr d'"
    by (auto simp: load_data_def split: sum.splits)
  have "map_of (foldl clean_step d numeric_cols) ''Geolocation'' = Some g"
    using assms(2) geolocation_not_numeric by (simp add: map_of_cleaned)
  from geo_step_latlon[OF g this]
  show "map_of d' ''lat'' = Some (FloatCol (map (\<lambda>x. fst (extract_coords x)) (geo_cells repr g)))"
    and "map_of d' ''lon'' = Some (FloatCol (map (\<lambda>x. snd (extract_coords x)) (geo_cells repr g)))"
    by simp_all
qed

text \<open>
  Claim C1. On \<^verbatim>\<open>POINT (-87.6298 41.8781)\<close> the function returns latitude 41.8781 and
  longitude -87.6298, the second and the first number of the text. On
  \<^verbatim>\<open>POINT (-87 41)\<close> it returns longitude 87, not -87: the pattern gives the sign to
  the alternative with a decimal point only, so the integer \<^verbatim>\<open>87\<close> is matched without
  its sign.
\<close>

theorem C1_extract_coords_signed_integer:
  "extract_coords (Some ''POINT (-87.6298 41.8781)'') = (Some (418781 / 10000), Some (- 876298 / 10000))
   \<and> findall ''POINT (-87 41)'' = [''87'', ''41'']
   \<and> extract_coords (Some ''POINT (-87 41)'') = (Some 41, Some 87)"
  by (simp add: extract_coords_def text_eval)

text \<open>
  Claim C5. \<^verbatim>\<open>extract_coords\<close> returns absent for both coordinates on a missing cell, on
  a text that is empty or blank, and on a text with fewer than two numeric tokens; on
  every input its two results are both present or both absent; and in the table that
  \<^verbatim>\<open>load_data\<close> returns for an input with a \<^verbatim>\<open>Geolocation\<close> column, the columns
  \<^verbatim>\<open>lat\<close> and \<^verbatim>\<open>lon\<close> have one cell per row of that column, both present or both
  absent in every row.
\<close>

theorem C5_extract_coords_all_or_nothing:
  "extract_coords None = (None, None)
   \<and> (py_strip s = [] \<longrightarrow> extract_coords (Some s) = (None, None))
   \<and> (length (findall t) < 2 \<longrightarrow> extract_coords (Some t) = (None, None))
   \<and> ((fst (extract_coords x) = None) = (snd (extract_coords x) = None))
   \<and> (load_data repr (Inr d) = (Some d', ms) \<and> map_of d ''Geolocation'' = Some g \<longrightarrow>
        (\<exists>la lo. map_of d' ''lat'' = Some (FloatCol la) \<and> map_of d' ''lon'' = Some (FloatCol lo)
           \<and> length la = length (geo_cells repr g) \<and> length lo = length (geo_cells repr g)
           \<and> (\<forall>i < length (geo_cells repr g). (la ! i = None) = (lo ! i = None))))"
proof -
  have "extract_coords None = (None, None)" by (simp add: extract_coords_def)
  moreover have "py_strip s = [] \<longrightarrow> extract_coords (Some s) = (None, None)"
    by (simp add: extract_coords_blank)
  moreover have "length (findall t) < 2 \<longrightarrow> extract_coords (Some t) = (None, None)"
    by (simp add: extract_coords_few)
  moreover have "(fst (extract_coords x) = None) = (snd (extract_coords x) = None)"
    by (rule extract_coords_both)
  moreover have "load_data repr (Inr d) = (Some d', ms) \<and> map_of d ''Geolocation'' = Some g \<longrightarrow>
        (\<exists>la lo. map_of d' ''lat'' = Some (FloatCol la) \<and> map_of d' ''lon'' = Some (FloatCol lo)
           \<and> length la = length (geo_cells repr g) \<and> length lo = length (geo_cells repr g)
           \<and> (\<forall>i < length (geo_cells repr g). (la ! i = None) = (lo ! i = None)))"
  proof
    assume a: "load_data repr (Inr d) = (Some d', ms) \<and> map_of d ''Geolocation'' = Some g"
    then have 1: "map_of d' ''lat'' = Some (FloatCol (map (\<lambda>x. fst (extract_coords x)) (geo_cells repr g)))"
      and 2: "map_of d' ''lon'' = Some (FloatCol (map (\<lambda>x. snd (extract_coords x)) (geo_cells repr g)))"
      by (auto dest: load_data_latlon)
    show "\<exists>la lo. map_of d' ''lat'' = Some (FloatCol la) \<and> map_of d' ''lon'' = Some (FloatCol lo)
           \<and> length la = length (geo_cells repr g) \<and> length lo = length (geo_cells repr g)
           \<and> (\<forall>i < length (geo_cells repr g). (la ! i = None) = (lo ! i = None))"
      unfolding 1 2 by (simp add: extract_coords_both)
  qed
  ultimately show ?thesis by blast
qed

lemma load_points_example:
  "load_data no_repr
     (Inr [(''Geolocation'', ObjectCol [Some ''POINT (-87.6298 41.8781)'', Some ''N/A'', None])])
   = (Some [(''Geolocation'', ObjectCol [Some ''POINT (-87.6298 41.8781)'', Some ''N/A'', None]),
            (''lat'', FloatCol [Some (418781 / 10000), None, None]),
            (''lon'', FloatCol [Some (- 876298 / 10000), None, None])], [])"
  by (simp add: load_data_def geo_step_def geo_cells_def numeric_cols_def clean_step_def
      set_col_def extract_coords_def text_eval)

theorem C5_extract_coords_all_or_nothing_witness:
  "py_strip ''  '' = [] \<and> extract_coords (Some ''  '') = (None, None)
   \<and> length (findall ''N/A'') < 2 \<and> extract_coords (Some ''N/A'') = (None, None)
   \<and> load_data no_repr
        (Inr [(''Geolocation'', ObjectCol [Some ''POINT (-87.6298 41.8781)'', Some ''N/A'', None])])
      = (Some [(''Geolocation'', ObjectCol [Some ''POINT (-87.6298 41.8781)'', Some ''N/A'', None]),
            (''lat'', FloatCol [Some (418781 / 10000), None, None]),
            (''lon'', FloatCol [Some (- 876298 / 10000), None, None])], [])
   \<and> map_of [(''Geolocation'', ObjectCol [Some ''POINT (-87.6298 41.8781)'', Some ''N/A'', None])] ''Geolocation''
      = Some (ObjectCol [Some ''POINT (-87.6298 41.8781)'', Some ''N/A'', None])
   \<and> (\<exists>la lo.
         map_of [(''Geolocation'', ObjectCol [Some ''POINT (-87.6298 41.8781)'', Some ''N/A'', None]),
            (''lat'', FloatCol [Some (418781 / 10000), None, None]),
            (''lon'', FloatCol [Some (- 876298 / 10000), None, None])] ''lat'' = Some (FloatCol la)
         \<and> map_of [(''Geolocation'', ObjectCol [Some ''POINT (-87.6298 41.8781)'', Some ''N/A'', None]),
            (''lat'', FloatCol [Some (418781 / 10000), None, None]),
            (''lon'', FloatCol [Some (- 876298 / 10000), None, None])] ''lon'' = Some (FloatCol lo)
         \<and> length la = length (geo_cells no_repr (ObjectCol [Some ''POINT (-87.6298 41.8781)'', Some ''N/A'', None]))
         \<and> length lo = length (geo_cells no_repr (ObjectCol [Some ''POINT (-87.6298 41.8781)'', Some ''N/A'', None]))
         \<and> (\<forall>i < length (geo_cells no_repr (ObjectCol [Some ''POINT (-87.6298 41.8781)'', Some ''N/A'', None])). (la ! i = None) = (lo ! i = None)))"
proof -
  have s: "py_strip ''  '' = []" by (simp add: text_eval)
  have t: "length (findall ''N/A'') < 2" by (simp add: text_eval)
  have g: "map_of [(''Geolocation'', ObjectCol [Some ''POINT (-87.6298 41.8781)'', Some ''N/A'', None])] ''Geolocation''
           = Some (ObjectCol [Some ''POINT (-87.6298 41.8781)'', Some ''N/A'', None])"
    by simp
  note c = C5_extract_coords_all_or_nothing
    [of "''  ''" "''N/A''" "None" no_repr
        "[(''Geolocation'', ObjectCol [Some ''POINT (-87.6298 41.8781)'', Some ''N/A'', None])]"
        "[(''Geolocation'', ObjectCol [Some ''POINT (-87.6298 41.8781)'', Some ''N/A'', None]),
            (''lat'', FloatCol [Some (418781 / 10000), None, None]),
            (''lon'', FloatCol [Some (- 876298 / 10000), None, None])]"
        "[]" "ObjectCol [Some ''POINT (-87.6298 41.8781)'', Some ''N/A'', None]"]
  from c s t g load_points_example show ?thesis
    by blast
qed

section \<open>Load failure\<close>

text \<open>
  Claim C8. When \<^verbatim>\<open>read_csv\<close> raises, \<^verbatim>\<open>load_data\<close> writes one error message and
  returns no table, and the script then writes its own message and computes none of the
  views. In general the script computes the views exactly when \<^verbatim>\<open>load_data\<close>
  returned a table.
\<close>

theorem C8_load_failure_halts:
  "load_data repr (Inl e) = (None, [LoadError e])
   \<and> dashboard repr (Inl e) tema_sel edad_sel estados_sel = ([LoadError e, InitError], None)
   \<and> snd (dashboard repr r tema_sel edad_sel estados_sel)
       = map_option (\<lambda>df. views df tema_sel edad_sel estados_sel) (fst (load_data repr r))"
  by (simp add: dashboard_def load_data_def split: sum.splits prod.splits option.splits)

section \<open>Numeric coercion\<close>

lemma count_takeWhile_digit: "count_list (takeWhile is_digit u) (CHR ''.'') = 0"
proof -
  have "CHR ''.'' \<notin> set (takeWhile is_digit u)"
    by (auto dest!: set_takeWhileD simp: is_digit_def)
  then show ?thesis by (rule count_notin)
qed

lemma digit_not_point: "is_digit c \<Longrightarrow> c \<noteq> CHR ''.''"
  by (auto simp: is_digit_def)

lemma count_digits: "list_all is_digit ds \<Longrightarrow> count_list ds (CHR ''.'') = 0"
  by (induction ds) (auto dest: digit_not_point)

lemma count_split_sign: "split_sign s = (neg, u) \<Longrightarrow> count_list s (CHR ''.'') = count_list u (CHR ''.'')"
  by (auto simp: split_sign_def split: list.splits if_splits)

lemma parse_exponent_no_dot: "parse_exponent r = Some e \<Longrightarrow> count_list r (CHR ''.'') = 0"
proof (cases r)
  case Nil
  then show ?thesis by simp
next
  case (Cons c t)
  obtain neg ds where sd: "split_sign t = (neg, ds)" by (cases "split_sign t")
  assume "parse_exponent r = Some e"
  with Cons sd have c: "c = CHR ''e'' \<or> c = CHR ''E''" and d: "list_all is_digit ds"
    by (auto simp: parse_exponent_def split: if_splits)
  from count_split_sign[OF sd] count_digits[OF d] have "count_list t (CHR ''.'') = 0" by simp
  with c Cons show ?thesis by auto
qed

lemma parse_decimal_dots:
  assumes "parse_decimal t = Some v"
  shows "count_list t (CHR ''.'') \<le> 1"
proof -
  obtain neg u where su: "split_sign t = (neg, u)" by (cases "split_sign t")
  define r1 where "r1 = dropWhile is_digit u"
  have u: "u = takeWhile is_digit u @ r1" by (simp add: r1_def)
  have "count_list u (CHR ''.'') = count_list (takeWhile is_digit u) (CHR ''.'') + count_list r1 (CHR ''.'')"
    by (subst u) (simp only: count_list_append)
  then have cu: "count_list u (CHR ''.'') = count_list r1 (CHR ''.'')"
    by (simp add: count_takeWhile_digit)
  have "count_list r1 (CHR ''.'') \<le> 1"
  proof (cases r1)
    case Nil
    then show ?thesis by simp
  next
    case (Cons c r)
    show ?thesis
    proof (cases "c = CHR ''.''")
      case True
      from assms su Cons True obtain e where "parse_exponent (dropWhile is_digit r) = Some e"
        by (auto simp: parse_decimal_def Let_def r1_def[symmetric] split: if_splits option.splits)
      then have "count_list (dropWhile is_digit r) (CHR ''.'') = 0"
        by (rule parse_exponent_no_dot)
      moreover have "count_list r (CHR ''.'')
          = count_list (takeWhile is_digit r) (CHR ''.'') + count_list (dropWhile is_digit r) (CHR ''.'')"
        by (simp only: count_list_append[symmetric] takeWhile_dropWhile_id)
      ultimately show ?thesis using Cons True by (simp add: count_takeWhile_digit)
    next
      case False
      from assms su Cons False obtain e where "parse_exponent r1 = Some e"
        by (auto simp: parse_decimal_def Let_def r1_def[symmetric] split: if_splits option.splits)
      then show ?thesis by (simp add: parse_exponent_no_dot)
    qed
  qed
  with cu count_split_sign[OF su] show ?thesis by simp
qed

lemma space_not_point: "c_space c \<Longrightarrow> c \<noteq> CHR ''.''"
  by (auto simp: c_space_def)

lemma count_dropWhile_space:
  "count_list (dropWhile c_space s) (CHR ''.'') = count_list s (CHR ''.'')"
  by (induction s) (auto dest: space_not_point)

lemma count_strip: "count_list (strip_by c_space s) (CHR ''.'') = count_list s (CHR ''.'')"
  by (simp add: strip_by_def count_dropWhile_space)

lemma count_replace_comma:
  "count_list (replace_comma s) (CHR ''.'') = count_list s (CHR '','') + count_list s (CHR ''.'')"
  by (induction s) (auto simp: replace_comma_def)

lemma two_points_missing:
  assumes "2 \<le> count_list s (CHR '','') + count_list s (CHR ''.'')"
  shows "to_numeric_text (replace_comma s) = None"
proof (cases "to_numeric_text (replace_comma s)")
  case None
  then show ?thesis .
next
  case (Some v)
  then have "count_list (strip_by c_space (replace_comma s)) (CHR ''.'') \<le> 1"
    unfolding to_numeric_text_def by (rule parse_decimal_dots)
  with assms show ?thesis by (simp add: count_strip count_replace_comma)
qed

lemma replace_comma_idem: "replace_comma (replace_comma s) = replace_comma s"
  by (simp add: replace_comma_def)

lemma clean_object:
  "clean_column (ObjectCol xs)
   = FloatCol (map (\<lambda>x. to_numeric_text (replace_comma (astype_str x))) xs)"
  by (simp add: clean_column_def str_replace_comma_def to_numeric_def comp_def)

lemma clean_float: "clean_column (FloatCol ys) = FloatCol ys"
  by (simp add: clean_column_def to_numeric_def)

lemma col_len_clean: "col_len (clean_column c) = col_len c"
  by (cases c) (simp_all add: clean_object clean_float col_len_def)

lemma same_len_cols:
  assumes "same_len d" and "map_of d a = Some c" and "map_of d b = Some c'"
  shows "col_len c = col_len c'"
proof -
  from assms(2,3) have "(a, c) \<in> set d" and "(b, c') \<in> set d"
    by (auto dest: map_of_SomeD)
  with assms(1) show ?thesis
    unfolding same_len_def list_all_iff by fastforce
qed

lemma length_geo_cells: "length (geo_cells repr g) = col_len g"
  by (cases g) (simp_all add: geo_cells_def col_len_def)

lemma geo_step_rows:
  assumes "map_of d ''Geolocation'' = Some g" and "0 < col_len g"
  shows "geo_step repr d
         = Inr (set_col ''lon'' (FloatCol (map (\<lambda>x. snd (extract_coords x)) (geo_cells repr g)))
                 (set_col ''lat'' (FloatCol (map (\<lambda>x. fst (extract_coords x)) (geo_cells repr g))) d))"
proof -
  from assms(2) have "geo_cells repr g \<noteq> []"
    using length_geo_cells[of repr g] by auto
  with assms(1) show ?thesis
    by (simp add: geo_step_def Let_def comp_def)
qed

lemma geo_step_absent: "map_of d ''Geolocation'' = None \<Longrightarrow> geo_step repr d = Inr d"
  by (simp add: geo_step_def)

lemma latlon_not_numeric: "''lat'' \<notin> set numeric_cols" "''lon'' \<notin> set numeric_cols"
  by (simp_all add: numeric_cols_def)

text \<open>The table is loaded when it has no Geolocation column or has a row.\<close>

lemma load_data_cases:
  "(map_of d ''Geolocation'' = None \<and>
      load_data repr (Inr d) = (Some (foldl clean_step d numeric_cols), []))
   \<or> (\<exists>g. map_of d ''Geolocation'' = Some g \<and> col_len g = 0 \<and>
      load_data repr (Inr d) = (None, [LoadError ValueError]))
   \<or> (\<exists>g. map_of d ''Geolocation'' = Some g \<and> 0 < col_len g \<and>
      load_data repr (Inr d)
      = (Some (set_col ''lon'' (FloatCol (map (\<lambda>x. snd (extract_coords x)) (geo_cells repr g)))
                (set_col ''lat'' (FloatCol (map (\<lambda>x. fst (extract_coords x)) (geo_cells repr g)))
                  (foldl clean_step d numeric_cols))), []))"
proof (cases "map_of d ''Geolocation''")
  case None
  then have "map_of (foldl clean_step d numeric_cols) ''Geolocation'' = None"
    using geolocation_not_numeric by (simp add: map_of_cleaned)
  then show ?thesis using None by (simp add: load_data_def geo_step_absent)
next
  case (Some g)
  then have m: "map_of (foldl clean_step d numeric_cols) ''Geolocation'' = Some g"
    using geolocation_not_numeric by (simp add: map_of_cleaned)
  show ?thesis
  proof (cases "col_len g = 0")
    case True
    then have "geo_cells repr g = []" using length_geo_cells[of repr g] by simp
    with m have "geo_step repr (foldl clean_step d numeric_cols) = Inl ValueError"
      by (simp add: geo_step_def)
    with Some True show ?thesis by (simp add: load_data_def)
  next
    case False
    then have "0 < col_len g" by simp
    from geo_step_rows[OF m this] Some \<open>0 < col_len g\<close> show ?thesis
      by (simp add: load_data_def)
  qed
qed

lemma load_data_numeric:
  assumes "same_len d" and "col \<in> set numeric_cols" and "map_of d col = Some c" and "0 < col_len c"
  shows "\<exists>d'. load_data repr (Inr d) = (Some d', []) \<and> map_of d' col = Some (clean_column c)"
proof -
  have ne: "col \<noteq> ''lat''" "col \<noteq> ''lon''"
    using assms(2) latlon_not_numeric by auto
  have c: "map_of (foldl clean_step d numeric_cols) col = Some (clean_column c)"
    using assms(2,3) by (simp add: map_of_cleaned)
  from load_data_cases[of d repr] show ?thesis
  proof (elim disjE exE conjE)
    assume "load_data repr (Inr d) = (Some (foldl clean_step d numeric_cols), [])"
    with c show ?thesis by simp
  next
    fix g assume "map_of d ''Geolocation'' = Some g" "col_len g = 0"
    with same_len_cols[OF assms(1) assms(3)] assms(4) have False by fastforce
    then show ?thesis ..
  next
    fix g
    assume "load_data repr (Inr d)
      = (Some (set_col ''lon'' (FloatCol (map (\<lambda>x. snd (extract_coords x)) (geo_cells repr g)))
                (set_col ''lat'' (FloatCol (map (\<lambda>x. fst (extract_coords x)) (geo_cells repr g)))
                  (foldl clean_step d numeric_cols))), [])"
    with c ne show ?thesis by (simp add: map_of_set_col)
  qed
qed

text \<open>
  Claim C3. For a text cell of one of the three numeric columns (in a table whose columns
  have equal length), \<^verbatim>\<open>load_data\<close> returns a table, writes no message, and the
  cell of the cleaned column is the number parsed from the text with every comma
  replaced by a point, or missing when that text does not parse; the cleaned column
  holds numbers and missing cells only. The column cleaned from the text with its commas
  already written as points is the same column. In the witness \<^verbatim>\<open>12,5\<close> becomes 12.5.
\<close>

theorem C3_comma_decimal_coercion:
  assumes "same_len d" and "col \<in> set numeric_cols" and "map_of d col = Some (ObjectCol xs)"
    and "i < length xs" and "xs ! i = Some s"
  shows "\<exists>d' ys. load_data repr (Inr d) = (Some d', [])
           \<and> map_of d' col = Some (FloatCol ys) \<and> length ys = length xs
           \<and> ys ! i = to_numeric_text (replace_comma s)
           \<and> clean_column (ObjectCol (xs[i := Some (replace_comma s)])) = FloatCol ys"
proof -
  let ?f = "\<lambda>x. to_numeric_text (replace_comma (astype_str x))"
  from assms(4) have "0 < col_len (ObjectCol xs)" by (auto simp: col_len_def)
  from load_data_numeric[OF assms(1,2,3) this, of repr]
  obtain d' where d': "load_data repr (Inr d) = (Some d', [])"
    and c: "map_of d' col = Some (FloatCol (map ?f xs))"
    by (auto simp: clean_object)
  have "?f (Some (replace_comma s)) = ?f (xs ! i)"
    using assms(5) by (simp add: astype_str_def replace_comma_idem)
  then have "map ?f (xs[i := Some (replace_comma s)]) = map ?f xs"
    using assms(4) by (simp add: map_update list_update_same_conv)
  then have "clean_column (ObjectCol (xs[i := Some (replace_comma s)])) = FloatCol (map ?f xs)"
    by (simp add: clean_object)
  moreover have "map ?f xs ! i = to_numeric_text (replace_comma s)"
    using assms(4,5) by (simp add: astype_str_def)
  ultimately show ?thesis using d' c by auto
qed

theorem C3_comma_decimal_coercion_witness:
  "same_len [(''Data_Value'', ObjectCol [Some ''12,5'', Some ''abc''])]
   \<and> ''Data_Value'' \<in> set numeric_cols
   \<and> map_of [(''Data_Value'', ObjectCol [Some ''12,5'', Some ''abc''])] ''Data_Value'' = Some (ObjectCol [Some ''12,5'', Some ''abc''])
   \<and> 0 < length [Some ''12,5'', Some ''abc''] \<and> [Some ''12,5'', Some ''abc''] ! 0 = Some ''12,5''
   \<and> replace_comma ''12,5'' = ''12.5''
   \<and> to_numeric_text (replace_comma ''12,5'') = Some (25 / 2)
   \<and> (\<exists>d' ys. load_data no_repr (Inr [(''Data_Value'', ObjectCol [Some ''12,5'', Some ''abc''])]) = (Some d', [])
         \<and> map_of d' ''Data_Value'' = Some (FloatCol ys) \<and> length ys = length [Some ''12,5'', Some ''abc'']
         \<and> ys ! 0 = to_numeric_text (replace_comma ''12,5'')
         \<and> clean_column (ObjectCol ([Some ''12,5'', Some ''abc''][0 := Some (replace_comma ''12,5'')])) = FloatCol ys)"
proof -
  have a: "same_len [(''Data_Value'', ObjectCol [Some ''12,5'', Some ''abc''])]"
    by (simp add: same_len_def)
  have b: "''Data_Value'' \<in> set numeric_cols" by (simp add: numeric_cols_def)
  have c: "map_of [(''Data_Value'', ObjectCol [Some ''12,5'', Some ''abc''])] ''Data_Value'' = Some (ObjectCol [Some ''12,5'', Some ''abc''])"
    by simp
  have i: "0 < length [Some ''12,5'', Some ''abc'']" by simp
  have x: "[Some ''12,5'', Some ''abc''] ! 0 = Some ''12,5''" by simp
  have r: "replace_comma ''12,5'' = ''12.5''" by (simp add: replace_comma_def)
  have v: "to_numeric_text (replace_comma ''12,5'') = Some (25 / 2)"
    by (simp add: to_numeric_text_def replace_comma_def text_eval)
  from C3_comma_decimal_coercion[OF a b c i x, of no_repr] a b c i x r v show ?thesis
    by blast
qed

text \<open>
  Claim C9. The text \<^verbatim>\<open>1,234\<close> is coerced to 1.234 (1234/1000), and \<^verbatim>\<open>1.234,5\<close> to
  missing. In general a text cell with two or more characters among comma and point is
  coerced to missing: the rewritten text has two or more decimal points.
\<close>

theorem C9_comma_thousands:
  "clean_column (ObjectCol [Some ''1,234'']) = FloatCol [Some (1234 / 1000)]
   \<and> clean_column (ObjectCol [Some ''1.234,5'']) = FloatCol [None]
   \<and> (i < length xs \<and> xs ! i = Some s
        \<and> 2 \<le> count_list s (CHR '','') + count_list s (CHR ''.'')
      \<longrightarrow> (\<exists>ys. clean_column (ObjectCol xs) = FloatCol ys \<and> length ys = length xs \<and> ys ! i = None))"
proof (intro conjI impI)
  show "clean_column (ObjectCol [Some ''1,234'']) = FloatCol [Some (1234 / 1000)]"
    by (simp add: clean_object astype_str_def to_numeric_text_def replace_comma_def text_eval)
  show "clean_column (ObjectCol [Some ''1.234,5'']) = FloatCol [None]"
    by (simp add: clean_object astype_str_def to_numeric_text_def replace_comma_def text_eval)
next
  assume a: "i < length xs \<and> xs ! i = Some s \<and> 2 \<le> count_list s (CHR '','') + count_list s (CHR ''.'')"
  then have "to_numeric_text (replace_comma s) = None" by (simp add: two_points_missing)
  with a show "\<exists>ys. clean_column (ObjectCol xs) = FloatCol ys \<and> length ys = length xs \<and> ys ! i = None"
    by (simp add: clean_object astype_str_def)
qed

theorem C9_comma_thousands_witness:
  "1 < length [Some ''7'', Some ''1,234,567''] \<and> [Some ''7'', Some ''1,234,567''] ! 1 = Some ''1,234,567''
   \<and> 2 \<le> count_list ''1,234,567'' (CHR '','') + count_list ''1,234,567'' (CHR ''.'')
   \<and> (\<exists>ys. clean_column (ObjectCol [Some ''7'', Some ''1,234,567'']) = FloatCol ys
         \<and> length ys = length [Some ''7'', Some ''1,234,567''] \<and> ys ! 1 = None)"
proof -
  have i: "1 < length [Some ''7'', Some ''1,234,567'']" by simp
  have x: "[Some ''7'', Some ''1,234,567''] ! 1 = Some ''1,234,567''" by simp
  have n: "2 \<le> count_list ''1,234,567'' (CHR '','') + count_list ''1,234,567'' (CHR ''.'')"
    by simp
  from C9_comma_thousands[of 1 "[Some ''7'', Some ''1,234,567'']" "''1,234,567''"] i x n show ?thesis
    by blast
qed

section \<open>Filter composition\<close>

lemma keep_Nil: "keep m [] = []" "keep [] xs = []"
  by (simp_all add: keep_def)

lemma keep_Cons: "keep (b # m) (x # xs) = (if b then x # keep m xs else keep m xs)"
  by (simp add: keep_def)

lemma keep_map: "keep m (map f xs) = map f (keep m xs)"
proof (induction xs arbitrary: m)
  case Nil
  then show ?case by (simp add: keep_Nil)
next
  case (Cons x xs)
  then show ?case by (cases m) (simp_all add: keep_Nil keep_Cons)
qed

lemma keep_keep:
  "length xs = length m1 \<Longrightarrow> length m2 = length m1 \<Longrightarrow>
   keep (keep m1 m2) (keep m1 xs) = keep (mask_and m1 m2) xs"
proof (induction m1 arbitrary: xs m2)
  case Nil
  then show ?case by (simp add: keep_Nil mask_and_def)
next
  case (Cons b m1)
  then obtain x xs' y m2' where "xs = x # xs'" "m2 = y # m2'"
    by (cases xs; cases m2) auto
  with Cons show ?case by (simp add: keep_Cons mask_and_def)
qed

lemma cells_select_col: "cells (select_col m c) = keep m (cells c)"
  by (cases c) (simp_all add: select_col_def cells_def keep_map)

lemma length_cells: "length (cells c) = col_len c"
  by (cases c) (simp_all add: cells_def col_len_def)

lemma select_col_twice:
  "col_len c = length m1 \<Longrightarrow> length m2 = length m1 \<Longrightarrow>
   select_col (keep m1 m2) (select_col m1 c) = select_col (mask_and m1 m2) c"
  by (cases c) (simp_all add: select_col_def col_len_def keep_keep)

lemma map_of_select_rows:
  "map_of (select_rows m d) n = map_option (select_col m) (map_of d n)"
  by (induction d) (auto simp: select_rows_def)

lemma getcol_select_rows:
  "getcol (select_rows m d) n
   = (case getcol d n of Inl e \<Rightarrow> Inl e | Inr c \<Rightarrow> Inr (select_col m c))"
  by (simp add: getcol_def map_of_select_rows split: option.splits)

lemma isin_select_col: "isin (select_col m c) vs = keep m (isin c vs)"
  by (simp add: isin_def cells_select_col keep_map)

lemma length_series_eq: "length (series_eq c v) = col_len c"
  by (simp add: series_eq_def length_cells)

lemma length_isin: "length (isin c vs) = col_len c"
  by (simp add: isin_def length_cells)

lemma getcol_in: "getcol d n = Inr c \<Longrightarrow> (n, c) \<in> set d"
  by (auto simp: getcol_def split: option.splits dest: map_of_SomeD)

lemma same_len_in:
  "same_len d \<Longrightarrow> (a, c) \<in> set d \<Longrightarrow> (b, c') \<in> set d \<Longrightarrow> col_len c = col_len c'"
  unfolding same_len_def list_all_iff by fastforce

lemma select_rows_twice:
  assumes "\<forall>p \<in> set d. col_len (snd p) = length m1" and "length m2 = length m1"
  shows "select_rows (keep m1 m2) (select_rows m1 d) = select_rows (mask_and m1 m2) d"
  using assms by (simp add: select_rows_def select_col_twice)

text \<open>
  Claim C4. For every table whose columns have equal length, every choice of topic and age
  group and every list of locations (a subset of the primary result's locations or not),
  filtering the primary result by membership of \<^verbatim>\<open>LocationDesc\<close> gives the same
  table, or the same \<^verbatim>\<open>KeyError\<close>, as filtering the table once by the conjunction of
  the three predicates.
\<close>

theorem C4_filter_composition:
  assumes "same_len df"
  shows "(case df_mapa df tema_sel edad_sel of
            Inl e \<Rightarrow> Inl e
          | Inr dm \<Rightarrow> df_filtered dm estados_sel)
         = select_direct df tema_sel edad_sel estados_sel"
proof (cases "getcol df ''Topic''")
  case (Inl e)
  then show ?thesis by (simp add: df_mapa_def select_direct_def)
next
  case t: (Inr t)
  show ?thesis
  proof (cases "getcol df ''Age Group''")
    case (Inl e)
    with t show ?thesis by (simp add: df_mapa_def select_direct_def)
  next
    case a: (Inr a)
    define m1 where "m1 = mask_and (series_eq t tema_sel) (series_eq a edad_sel)"
    have ta: "col_len t = col_len a"
      using same_len_in[OF assms getcol_in[OF t] getcol_in[OF a]] .
    have len1: "length m1 = col_len t"
      by (simp add: m1_def mask_and_def length_series_eq ta)
    have all: "\<forall>p \<in> set df. col_len (snd p) = length m1"
    proof
      fix p assume "p \<in> set df"
      then have "(fst p, snd p) \<in> set df" by simp
      from same_len_in[OF assms this getcol_in[OF t]] len1
      show "col_len (snd p) = length m1" by simp
    qed
    show ?thesis
    proof (cases "getcol df ''LocationDesc''")
      case (Inl e)
      with t a show ?thesis
        by (simp add: df_mapa_def select_direct_def df_filtered_def getcol_select_rows)
    next
      case l: (Inr l)
      have "col_len l = length m1"
        using all getcol_in[OF l] by fastforce
      then have "length (isin l estados_sel) = length m1" by (simp add: length_isin)
      from select_rows_twice[OF all this] t a l show ?thesis
        by (simp add: df_mapa_def select_direct_def df_filtered_def getcol_select_rows
            isin_select_col m1_def)
    qed
  qed
qed

theorem C4_filter_composition_witness:
  "same_len [(''Topic'', ObjectCol [Some ''Obesity'', Some ''Obesity'', Some ''Obesity'', Some ''Sleep'']),
      (''Age Group'', ObjectCol [Some ''65+'', Some ''65+'', Some ''50-64'', Some ''65+'']),
      (''LocationDesc'', ObjectCol [Some ''Ohio'', Some ''Utah'', Some ''Ohio'', Some ''Ohio''])]
   \<and> (case df_mapa [(''Topic'', ObjectCol [Some ''Obesity'', Some ''Obesity'', Some ''Obesity'', Some ''Sleep'']),
      (''Age Group'', ObjectCol [Some ''65+'', Some ''65+'', Some ''50-64'', Some ''65+'']),
      (''LocationDesc'', ObjectCol [Some ''Ohio'', Some ''Utah'', Some ''Ohio'', Some ''Ohio''])] (Str ''Obesity'') (Str ''65+'') of
         Inl e \<Rightarrow> Inl e
       | Inr dm \<Rightarrow> df_filtered dm [Str ''Utah''])
     = select_direct [(''Topic'', ObjectCol [Some ''Obesity'', Some ''Obesity'', Some ''Obesity'', Some ''Sleep'']),
      (''Age Group'', ObjectCol [Some ''65+'', Some ''65+'', Some ''50-64'', Some ''65+'']),
      (''LocationDesc'', ObjectCol [Some ''Ohio'', Some ''Utah'', Some ''Ohio'', Some ''Ohio''])] (Str ''Obesity'') (Str ''65+'') [Str ''Utah'']
   \<and> select_direct [(''Topic'', ObjectCol [Some ''Obesity'', Some ''Obesity'', Some ''Obesity'', Some ''Sleep'']),
      (''Age Group'', ObjectCol [Some ''65+'', Some ''65+'', Some ''50-64'', Some ''65+'']),
      (''LocationDesc'', ObjectCol [Some ''Ohio'', Some ''Utah'', Some ''Ohio'', Some ''Ohio''])] (Str ''Obesity'') (Str ''65+'') [Str ''Utah'']
     = Inr [(''Topic'', ObjectCol [Some ''Obesity'']), (''Age Group'', ObjectCol [Some ''65+'']),
            (''LocationDesc'', ObjectCol [Some ''Utah''])]"
proof -
  have w: "same_len [(''Topic'', ObjectCol [Some ''Obesity'', Some ''Obesity'', Some ''Obesity'', Some ''Sleep'']),
      (''Age Group'', ObjectCol [Some ''65+'', Some ''65+'', Some ''50-64'', Some ''65+'']),
      (''LocationDesc'', ObjectCol [Some ''Ohio'', Some ''Utah'', Some ''Ohio'', Some ''Ohio''])]"
    by (simp add: same_len_def col_len_def)
  have v: "select_direct [(''Topic'', ObjectCol [Some ''Obesity'', Some ''Obesity'', Some ''Obesity'', Some ''Sleep'']),
      (''Age Group'', ObjectCol [Some ''65+'', Some ''65+'', Some ''50-64'', Some ''65+'']),
      (''LocationDesc'', ObjectCol [Some ''Ohio'', Some ''Utah'', Some ''Ohio'', Some ''Ohio''])] (Str ''Obesity'') (Str ''65+'') [Str ''Utah'']
     = Inr [(''Topic'', ObjectCol [Some ''Obesity'']), (''Age Group'', ObjectCol [Some ''65+'']),
            (''LocationDesc'', ObjectCol [Some ''Utah''])]"
    by (simp add: select_direct_def getcol_def series_eq_def isin_def mask_and_def cells_def
        select_rows_def select_col_def keep_def)
  from C4_filter_composition[OF w, where tema_sel = "Str ''Obesity''" and edad_sel = "Str ''65+''"
      and estados_sel = "[Str ''Utah'']"] w v
  show ?thesis by blast
qed

section \<open>Aggregation\<close>

lemma group_values_Nil: "group_values k [] = []"
  by (simp add: group_values_def)

lemma group_values_Cons:
  "group_values k (r # rows)
   = (if fst r = k then (case snd r of None \<Rightarrow> [] | Some x \<Rightarrow> [x]) else []) @ group_values k rows"
  by (simp add: group_values_def)

lemma group_values_absent: "k \<notin> fst ` set rows \<Longrightarrow> group_values k rows = []"
  by (induction rows) (auto simp: group_values_Nil group_values_Cons)

lemma group_step_at:
  "group_step acc (k0, v) k
   = (if k = k0 \<and> fst k0 \<noteq> NaN \<and> snd k0 \<noteq> NaN
      then Some (fst (case acc k of None \<Rightarrow> (0, 0) | Some sn \<Rightarrow> sn)
                   + (case v of None \<Rightarrow> 0 | Some x \<Rightarrow> x),
                 snd (case acc k of None \<Rightarrow> (0, 0) | Some sn \<Rightarrow> sn)
                   + (case v of None \<Rightarrow> 0 | Some x \<Rightarrow> 1))
      else acc k)"
  by (auto simp: group_step_def split: option.splits prod.splits)

lemma foldl_group_step:
  "foldl group_step acc rows k
   = (if fst k \<noteq> NaN \<and> snd k \<noteq> NaN \<and> k \<in> fst ` set rows
      then Some (fst (case acc k of None \<Rightarrow> (0, 0) | Some sn \<Rightarrow> sn)
                   + sum_list (group_values k rows),
                 snd (case acc k of None \<Rightarrow> (0, 0) | Some sn \<Rightarrow> sn)
                   + length (group_values k rows))
      else acc k)"
proof (induction rows arbitrary: acc)
  case Nil
  then show ?case by simp
next
  case (Cons r rows)
  obtain k0 v where r: "r = (k0, v)" by (cases r)
  show ?case
    unfolding foldl_Cons Cons.IH r group_step_at group_values_Cons
    by (cases v) (auto simp: group_values_absent split: option.splits)
qed

lemma group_mean_at:
  "group_mean rows k
   = (if fst k \<noteq> NaN \<and> snd k \<noteq> NaN \<and> k \<in> fst ` set rows
      then Some (if group_values k rows = [] then NaN
                 else Num (sum_list (group_values k rows) / of_nat (length (group_values k rows))))
      else None)"
  by (simp add: group_mean_def foldl_group_step finish_mean_def)

lemma foldl_group_step_filter:
  "foldl group_step acc (filter (\<lambda>r. has_key (fst r)) rows) = foldl group_step acc rows"
proof (induction rows arbitrary: acc)
  case Nil
  then show ?case by simp
next
  case (Cons r rows)
  have "\<not> has_key (fst r) \<Longrightarrow> group_step acc r = acc"
    by (cases r) (auto simp: group_step_def has_key_def)
  with Cons show ?case by simp
qed

lemma group_mean_filter:
  "group_mean (filter (\<lambda>r. has_key (fst r)) rows) = group_mean rows"
  by (simp add: group_mean_def foldl_group_step_filter)

lemma keep_zip:
  "length xs = length m \<Longrightarrow> length ys = length m \<Longrightarrow>
   keep m (zip xs ys) = zip (keep m xs) (keep m ys)"
proof (induction m arbitrary: xs ys)
  case Nil
  then show ?case by (simp add: keep_Nil)
next
  case (Cons b m)
  then obtain x xs' y ys' where "xs = x # xs'" "ys = y # ys'"
    by (cases xs; cases ys) auto
  with Cons show ?case by (simp add: keep_Cons)
qed

lemma keep_filter: "keep (map P xs) xs = filter P xs"
  by (induction xs) (simp_all add: keep_Nil keep_Cons)

lemma length_keep_le: "length (keep m xs) \<le> length xs"
  unfolding keep_def length_map
  by (rule order_trans[OF length_filter_le]) simp

lemma df_geo_rows:
  assumes "getcol dm ''LocationAbbr'' = Inr a" and "getcol dm ''LocationDesc'' = Inr l"
    and "getcol dm ''Data_Value'' = Inr (FloatCol vs)"
  shows "df_geo dm = Inr (group_mean (zip (zip (cells a) (cells l)) vs))"
  using assms by (simp add: df_geo_def)

lemma df_geo_drop_missing_keys:
  assumes wf: "same_len dm" and a: "getcol dm ''LocationAbbr'' = Inr a"
    and l: "getcol dm ''LocationDesc'' = Inr l"
  shows "df_geo (select_rows (map has_key (zip (cells a) (cells l))) dm) = df_geo dm"
proof (cases "getcol dm ''Data_Value''")
  case (Inl e)
  with a l show ?thesis by (simp add: df_geo_def getcol_select_rows)
next
  case (Inr c)
  show ?thesis
  proof (cases c)
    case (ObjectCol xs)
    with Inr a l show ?thesis by (simp add: df_geo_def getcol_select_rows select_col_def)
  next
    case (FloatCol vs)
    define A where "A = cells a"
    define L where "L = cells l"
    define m where "m = map has_key (zip A L)"
    have al: "length A = length L"
      using same_len_in[OF wf getcol_in[OF a] getcol_in[OF l]] by (simp add: A_def L_def length_cells)
    have av: "length vs = length A"
      using same_len_in[OF wf getcol_in[OF a] getcol_in[OF Inr]] FloatCol
      by (simp add: A_def length_cells col_len_def)
    have lm: "length m = length A" by (simp add: m_def al)
    have e1: "zip (zip (keep m A) (keep m L)) (keep m vs) = keep m (zip (zip A L) vs)"
      using al av lm by (simp add: keep_zip)
    have e2: "m = map (\<lambda>r. has_key (fst r)) (zip (zip A L) vs)"
    proof -
      have "map (\<lambda>r. has_key (fst r)) (zip (zip A L) vs)
            = map has_key (map fst (zip (zip A L) vs))"
        by (simp only: map_map comp_def)
      also have "map fst (zip (zip A L) vs) = zip A L"
        using al av by simp
      finally show ?thesis by (simp add: m_def)
    qed
    have "keep m (zip (zip A L) vs) = filter (\<lambda>r. has_key (fst r)) (zip (zip A L) vs)"
      by (subst e2) (rule keep_filter)
    with e1 have "group_mean (zip (zip (keep m A) (keep m L)) (keep m vs))
                  = group_mean (zip (zip A L) vs)"
      by (simp add: group_mean_filter)
    moreover have "select_col m (FloatCol vs) = FloatCol (keep m vs)"
      by (simp add: select_col_def)
    ultimately show ?thesis using Inr FloatCol a l
      by (simp add: df_geo_def getcol_select_rows cells_select_col A_def L_def m_def)
  qed
qed

text \<open>
  Claim C2. The aggregate of a key is defined exactly when both parts of the key are
  present and some row has the key; it is then the sum of the group's present values
  divided by their number, and missing when the group has no present value. For a table
  with the two key columns and a numeric \<^verbatim>\<open>Data_Value\<close> column \<^verbatim>\<open>df_geo\<close> is this
  mapping, and the rows (IL, Chicago, 10), (IL, Chicago, 20), (CA, LA, missing) give
  (IL, Chicago) the mean 15 and (CA, LA) a missing mean.
\<close>

theorem C2_group_mean:
  "group_mean rows k
   = (if has_key k \<and> k \<in> fst ` set rows
      then Some (if group_values k rows = [] then NaN
                 else Num (sum_list (group_values k rows) / of_nat (length (group_values k rows))))
      else None)
   \<and> (getcol dm ''LocationAbbr'' = Inr a \<and> getcol dm ''LocationDesc'' = Inr l
        \<and> getcol dm ''Data_Value'' = Inr (FloatCol vs)
      \<longrightarrow> df_geo dm = Inr (group_mean (zip (zip (cells a) (cells l)) vs)))
   \<and> df_geo [(''LocationAbbr'', ObjectCol [Some ''IL'', Some ''IL'', Some ''CA'']),
              (''LocationDesc'', ObjectCol [Some ''Chicago'', Some ''Chicago'', Some ''LA'']),
              (''Data_Value'', FloatCol [Some 10, Some 20, None])]
     = Inr [(Str ''IL'', Str ''Chicago'') \<mapsto> Num 15, (Str ''CA'', Str ''LA'') \<mapsto> NaN]"
proof (intro conjI impI)
  show "group_mean rows k
   = (if has_key k \<and> k \<in> fst ` set rows
      then Some (if group_values k rows = [] then NaN
                 else Num (sum_list (group_values k rows) / of_nat (length (group_values k rows))))
      else None)"
    by (simp add: group_mean_at has_key_def)
next
  assume "getcol dm ''LocationAbbr'' = Inr a \<and> getcol dm ''LocationDesc'' = Inr l
        \<and> getcol dm ''Data_Value'' = Inr (FloatCol vs)"
  then show "df_geo dm = Inr (group_mean (zip (zip (cells a) (cells l)) vs))"
    by (simp add: df_geo_rows)
next
  have "group_mean [((Str ''IL'', Str ''Chicago''), Some 10), ((Str ''IL'', Str ''Chicago''), Some 20),
                    ((Str ''CA'', Str ''LA''), None)]
        = [(Str ''IL'', Str ''Chicago'') \<mapsto> Num 15, (Str ''CA'', Str ''LA'') \<mapsto> NaN]"
    by (rule ext) (auto simp: group_mean_at group_values_def)
  then show "df_geo [(''LocationAbbr'', ObjectCol [Some ''IL'', Some ''IL'', Some ''CA'']),
              (''LocationDesc'', ObjectCol [Some ''Chicago'', Some ''Chicago'', Some ''LA'']),
              (''Data_Value'', FloatCol [Some 10, Some 20, None])]
     = Inr [(Str ''IL'', Str ''Chicago'') \<mapsto> Num 15, (Str ''CA'', Str ''LA'') \<mapsto> NaN]"
    by (simp add: df_geo_def getcol_def cells_def)
qed

theorem C2_group_mean_witness:
  "getcol [(''LocationAbbr'', ObjectCol [Some ''IL'', Some ''IL'', Some ''CA'']),
      (''LocationDesc'', ObjectCol [Some ''Chicago'', Some ''Chicago'', Some ''LA'']),
      (''Data_Value'', FloatCol [Some 10, Some 20, None])] ''LocationAbbr'' = Inr (ObjectCol [Some ''IL'', Some ''IL'', Some ''CA''])
   \<and> getcol [(''LocationAbbr'', ObjectCol [Some ''IL'', Some ''IL'', Some ''CA'']),
      (''LocationDesc'', ObjectCol [Some ''Chicago'', Some ''Chicago'', Some ''LA'']),
      (''Data_Value'', FloatCol [Some 10, Some 20, None])] ''LocationDesc'' = Inr (ObjectCol [Some ''Chicago'', Some ''Chicago'', Some ''LA''])
   \<and> getcol [(''LocationAbbr'', ObjectCol [Some ''IL'', Some ''IL'', Some ''CA'']),
      (''LocationDesc'', ObjectCol [Some ''Chicago'', Some ''Chicago'', Some ''LA'']),
      (''Data_Value'', FloatCol [Some 10, Some 20, None])] ''Data_Value'' = Inr (FloatCol [Some 10, Some 20, None])
   \<and> df_geo [(''LocationAbbr'', ObjectCol [Some ''IL'', Some ''IL'', Some ''CA'']),
      (''LocationDesc'', ObjectCol [Some ''Chicago'', Some ''Chicago'', Some ''LA'']),
      (''Data_Value'', FloatCol [Some 10, Some 20, None])]
     = Inr (group_mean (zip (zip (cells (ObjectCol [Some ''IL'', Some ''IL'', Some ''CA''])) (cells (ObjectCol [Some ''Chicago'', Some ''Chicago'', Some ''LA'']))) [Some 10, Some 20, None]))"
proof -
  have a: "getcol [(''LocationAbbr'', ObjectCol [Some ''IL'', Some ''IL'', Some ''CA'']),
      (''LocationDesc'', ObjectCol [Some ''Chicago'', Some ''Chicago'', Some ''LA'']),
      (''Data_Value'', FloatCol [Some 10, Some 20, None])] ''LocationAbbr'' = Inr (ObjectCol [Some ''IL'', Some ''IL'', Some ''CA''])"
    by (simp add: getcol_def)
  have l: "getcol [(''LocationAbbr'', ObjectCol [Some ''IL'', Some ''IL'', Some ''CA'']),
      (''LocationDesc'', ObjectCol [Some ''Chicago'', Some ''Chicago'', Some ''LA'']),
      (''Data_Value'', FloatCol [Some 10, Some 20, None])] ''LocationDesc'' = Inr (ObjectCol [Some ''Chicago'', Some ''Chicago'', Some ''LA''])"
    by (simp add: getcol_def)
  have v: "getcol [(''LocationAbbr'', ObjectCol [Some ''IL'', Some ''IL'', Some ''CA'']),
      (''LocationDesc'', ObjectCol [Some ''Chicago'', Some ''Chicago'', Some ''LA'']),
      (''Data_Value'', FloatCol [Some 10, Some 20, None])] ''Data_Value'' = Inr (FloatCol [Some 10, Some 20, None])"
    by (simp add: getcol_def)
  from C2_group_mean[of "[]" "(NaN, NaN)" "[(''LocationAbbr'', ObjectCol [Some ''IL'', Some ''IL'', Some ''CA'']),
      (''LocationDesc'', ObjectCol [Some ''Chicago'', Some ''Chicago'', Some ''LA'']),
      (''Data_Value'', FloatCol [Some 10, Some 20, None])]" "ObjectCol [Some ''IL'', Some ''IL'', Some ''CA'']" "ObjectCol [Some ''Chicago'', Some ''Chicago'', Some ''LA'']" "[Some 10, Some 20, None]"] a l v
  show ?thesis by blast
qed


text \<open>
  Claim C10. A key with a missing part has no group; the aggregate over the rows whose
  key is complete equals the aggregate over all rows; and for a table, removing the rows
  whose \<^verbatim>\<open>LocationAbbr\<close> or \<^verbatim>\<open>LocationDesc\<close> is missing leaves \<^verbatim>\<open>df_geo\<close>
  unchanged.
\<close>

theorem C10_missing_key_rows_dropped:
  "(\<not> has_key k \<longrightarrow> group_mean rows k = None)
   \<and> group_mean (filter (\<lambda>r. has_key (fst r)) rows) = group_mean rows
   \<and> (same_len dm \<and> getcol dm ''LocationAbbr'' = Inr a \<and> getcol dm ''LocationDesc'' = Inr l
      \<longrightarrow> df_geo (select_rows (map has_key (zip (cells a) (cells l))) dm) = df_geo dm)
   \<and> (df_geo dm = Inr m \<and> \<not> has_key k \<longrightarrow> m k = None)"
proof (intro conjI impI)
  assume "\<not> has_key k"
  then show "group_mean rows k = None" by (auto simp: group_mean_at has_key_def)
next
  show "group_mean (filter (\<lambda>r. has_key (fst r)) rows) = group_mean rows"
    by (rule group_mean_filter)
next
  assume "same_len dm \<and> getcol dm ''LocationAbbr'' = Inr a \<and> getcol dm ''LocationDesc'' = Inr l"
  then show "df_geo (select_rows (map has_key (zip (cells a) (cells l))) dm) = df_geo dm"
    by (simp add: df_geo_drop_missing_keys)
next
  assume "df_geo dm = Inr m \<and> \<not> has_key k"
  then show "m k = None"
    by (auto simp: df_geo_def group_mean_at has_key_def split: sum.splits column.splits)
qed

theorem C10_missing_key_rows_dropped_witness:
  "\<not> has_key (NaN, Str ''Chicago'')
   \<and> group_mean [((Str ''IL'', Str ''Chicago''), Some 10), ((NaN, Str ''Chicago''), Some 99), ((Str ''IL'', Str ''Chicago''), Some 20)] (NaN, Str ''Chicago'') = None
   \<and> same_len [(''LocationAbbr'', ObjectCol [Some ''IL'', None, Some ''IL'']),
      (''LocationDesc'', ObjectCol [Some ''Chicago'', Some ''Chicago'', Some ''Chicago'']),
      (''Data_Value'', FloatCol [Some 10, Some 99, Some 20])]
   \<and> getcol [(''LocationAbbr'', ObjectCol [Some ''IL'', None, Some ''IL'']),
      (''LocationDesc'', ObjectCol [Some ''Chicago'', Some ''Chicago'', Some ''Chicago'']),
      (''Data_Value'', FloatCol [Some 10, Some 99, Some 20])] ''LocationAbbr'' = Inr (ObjectCol [Some ''IL'', None, Some ''IL''])
   \<and> getcol [(''LocationAbbr'', ObjectCol [Some ''IL'', None, Some ''IL'']),
      (''LocationDesc'', ObjectCol [Some ''Chicago'', Some ''Chicago'', Some ''Chicago'']),
      (''Data_Value'', FloatCol [Some 10, Some 99, Some 20])] ''LocationDesc'' = Inr (ObjectCol [Some ''Chicago'', Some ''Chicago'', Some ''Chicago''])
   \<and> df_geo (select_rows (map has_key (zip (cells (ObjectCol [Some ''IL'', None, Some ''IL''])) (cells (ObjectCol [Some ''Chicago'', Some ''Chicago'', Some ''Chicago''])))) [(''LocationAbbr'', ObjectCol [Some ''IL'', None, Some ''IL'']),
      (''LocationDesc'', ObjectCol [Some ''Chicago'', Some ''Chicago'', Some ''Chicago'']),
      (''Data_Value'', FloatCol [Some 10, Some 99, Some 20])])
     = df_geo [(''LocationAbbr'', ObjectCol [Some ''IL'', None, Some ''IL'']),
      (''LocationDesc'', ObjectCol [Some ''Chicago'', Some ''Chicago'', Some ''Chicago'']),
      (''Data_Value'', FloatCol [Some 10, Some 99, Some 20])]
   \<and> df_geo [(''LocationAbbr'', ObjectCol [Some ''IL'', None, Some ''IL'']),
      (''LocationDesc'', ObjectCol [Some ''Chicago'', Some ''Chicago'', Some ''Chicago'']),
      (''Data_Value'', FloatCol [Some 10, Some 99, Some 20])] = Inr (group_mean [((Str ''IL'', Str ''Chicago''), Some 10), ((NaN, Str ''Chicago''), Some 99), ((Str ''IL'', Str ''Chicago''), Some 20)])
   \<and> group_mean [((Str ''IL'', Str ''Chicago''), Some 10), ((NaN, Str ''Chicago''), Some 99), ((Str ''IL'', Str ''Chicago''), Some 20)] (NaN, Str ''Chicago'') = None
   \<and> group_mean [((Str ''IL'', Str ''Chicago''), Some 10), ((NaN, Str ''Chicago''), Some 99), ((Str ''IL'', Str ''Chicago''), Some 20)] (Str ''IL'', Str ''Chicago'') = Some (Num 15)"
proof -
  have k: "\<not> has_key (NaN, Str ''Chicago'')" by (simp add: has_key_def)
  have w: "same_len [(''LocationAbbr'', ObjectCol [Some ''IL'', None, Some ''IL'']),
      (''LocationDesc'', ObjectCol [Some ''Chicago'', Some ''Chicago'', Some ''Chicago'']),
      (''Data_Value'', FloatCol [Some 10, Some 99, Some 20])]"
    by (simp add: same_len_def col_len_def)
  have a: "getcol [(''LocationAbbr'', ObjectCol [Some ''IL'', None, Some ''IL'']),
      (''LocationDesc'', ObjectCol [Some ''Chicago'', Some ''Chicago'', Some ''Chicago'']),
      (''Data_Value'', FloatCol [Some 10, Some 99, Some 20])] ''LocationAbbr'' = Inr (ObjectCol [Some ''IL'', None, Some ''IL''])"
    by (simp add: getcol_def)
  have l: "getcol [(''LocationAbbr'', ObjectCol [Some ''IL'', None, Some ''IL'']),
      (''LocationDesc'', ObjectCol [Some ''Chicago'', Some ''Chicago'', Some ''Chicago'']),
      (''Data_Value'', FloatCol [Some 10, Some 99, Some 20])] ''LocationDesc'' = Inr (ObjectCol [Some ''Chicago'', Some ''Chicago'', Some ''Chicago''])"
    by (simp add: getcol_def)
  have g: "df_geo [(''LocationAbbr'', ObjectCol [Some ''IL'', None, Some ''IL'']),
      (''LocationDesc'', ObjectCol [Some ''Chicago'', Some ''Chicago'', Some ''Chicago'']),
      (''Data_Value'', FloatCol [Some 10, Some 99, Some 20])] = Inr (group_mean [((Str ''IL'', Str ''Chicago''), Some 10), ((NaN, Str ''Chicago''), Some 99), ((Str ''IL'', Str ''Chicago''), Some 20)])"
    by (simp add: df_geo_def getcol_def cells_def)
  have v: "group_mean [((Str ''IL'', Str ''Chicago''), Some 10), ((NaN, Str ''Chicago''), Some 99), ((Str ''IL'', Str ''Chicago''), Some 20)] (Str ''IL'', Str ''Chicago'') = Some (Num 15)"
    by (simp add: group_mean_at group_values_def)
  from C10_missing_key_rows_dropped[of "(NaN, Str ''Chicago'')" "[((Str ''IL'', Str ''Chicago''), Some 10), ((NaN, Str ''Chicago''), Some 99), ((Str ''IL'', Str ''Chicago''), Some 20)]" "[(''LocationAbbr'', ObjectCol [Some ''IL'', None, Some ''IL'']),
      (''LocationDesc'', ObjectCol [Some ''Chicago'', Some ''Chicago'', Some ''Chicago'']),
      (''Data_Value'', FloatCol [Some 10, Some 99, Some 20])]" "ObjectCol [Some ''IL'', None, Some ''IL'']" "ObjectCol [Some ''Chicago'', Some ''Chicago'', Some ''Chicago'']"
      "group_mean [((Str ''IL'', Str ''Chicago''), Some 10), ((NaN, Str ''Chicago''), Some 99), ((Str ''IL'', Str ''Chicago''), Some 20)]"] k w a l g v
  show ?thesis by blast
qed

section \<open>The frame of the cleaning step\<close>

lemma nth_distinct_map_of:
  "distinct (map fst d) \<Longrightarrow> j < length d \<Longrightarrow> map_of d (fst (d ! j)) = Some (snd (d ! j))"
  by (simp add: nth_mem)

lemma cleaned_eq:
  assumes "distinct (map fst d)"
  shows "foldl clean_step d numeric_cols
         = map (\<lambda>p. if fst p \<in> set numeric_cols then (fst p, clean_column (snd p)) else p) d"
proof (rule nth_equalityI)
  let ?C = "foldl clean_step d numeric_cols"
  have names: "map fst ?C = map fst d" by (rule names_cleaned)
  then have len: "length ?C = length d" by (rule map_eq_imp_length_eq)
  then show "length ?C
      = length (map (\<lambda>p. if fst p \<in> set numeric_cols then (fst p, clean_column (snd p)) else p) d)"
    by simp
  fix j assume j: "j < length ?C"
  with len have jd: "j < length d" by simp
  have f: "fst (?C ! j) = fst (d ! j)"
    using names j jd by (metis nth_map)
  have "distinct (map fst ?C)" using assms names by simp
  from nth_distinct_map_of[OF this j] have "map_of ?C (fst (d ! j)) = Some (snd (?C ! j))"
    by (simp add: f)
  moreover have "map_of d (fst (d ! j)) = Some (snd (d ! j))"
    by (rule nth_distinct_map_of[OF assms jd])
  ultimately have s: "snd (?C ! j)
      = (if fst (d ! j) \<in> set numeric_cols then clean_column (snd (d ! j)) else snd (d ! j))"
    by (simp add: map_of_cleaned split: if_splits)
  show "?C ! j = map (\<lambda>p. if fst p \<in> set numeric_cols then (fst p, clean_column (snd p)) else p) d ! j"
    using jd f s by (simp add: prod_eq_iff)
qed

lemma set_col_new: "map_of d n = None \<Longrightarrow> set_col n c d = d @ [(n, c)]"
  by (simp add: set_col_def)

text \<open>
  Claim C6, amended. For a table with distinct column names (as \<^verbatim>\<open>read_csv\<close> makes
  them), no column named \<^verbatim>\<open>lat\<close> or \<^verbatim>\<open>lon\<close>, and either no \<^verbatim>\<open>Geolocation\<close>
  column or at least one row, \<^verbatim>\<open>load_data\<close> returns a table and writes no message.
  The table has the input's columns at their positions under their names: each of the
  three numeric columns replaced by its coercion, which has one cell per cell of the
  input in the same order, and every other column as it was. When there is a
  \<^verbatim>\<open>Geolocation\<close> column, \<^verbatim>\<open>lat\<close> and \<^verbatim>\<open>lon\<close> follow the last column, in this
  order, with one cell per row of \<^verbatim>\<open>Geolocation\<close>, computed from that row.
\<close>

theorem C6_cleaning_keeps_columns_and_rows:
  assumes "distinct (map fst d)" and "map_of d ''lat'' = None" and "map_of d ''lon'' = None"
    and "map_of d ''Geolocation'' = None \<or> (\<exists>g. map_of d ''Geolocation'' = Some g \<and> 0 < col_len g)"
  shows "load_data repr (Inr d)
         = (Some (map (\<lambda>p. if fst p \<in> set numeric_cols then (fst p, clean_column (snd p)) else p) d
                  @ (case map_of d ''Geolocation'' of
                       None \<Rightarrow> []
                     | Some g \<Rightarrow>
                         [(''lat'', FloatCol (map (\<lambda>x. fst (extract_coords x)) (geo_cells repr g))),
                          (''lon'', FloatCol (map (\<lambda>x. snd (extract_coords x)) (geo_cells repr g)))])),
            [])
         \<and> (\<forall>c. col_len (clean_column c) = col_len c)
         \<and> (\<forall>xs. clean_column (ObjectCol xs)
                  = FloatCol (map (\<lambda>x. to_numeric_text (replace_comma (astype_str x))) xs))
         \<and> (\<forall>ys. clean_column (FloatCol ys) = FloatCol ys)
         \<and> (\<forall>g. length (geo_cells repr g) = col_len g)"
proof -
  let ?C = "foldl clean_step d numeric_cols"
  have lat: "map_of ?C ''lat'' = None" and lon: "map_of ?C ''lon'' = None"
    using assms(2,3) latlon_not_numeric by (simp_all add: map_of_cleaned)
  have "load_data repr (Inr d)
         = (Some (?C @ (case map_of d ''Geolocation'' of
                       None \<Rightarrow> []
                     | Some g \<Rightarrow>
                         [(''lat'', FloatCol (map (\<lambda>x. fst (extract_coords x)) (geo_cells repr g))),
                          (''lon'', FloatCol (map (\<lambda>x. snd (extract_coords x)) (geo_cells repr g)))])),
            [])"
    using load_data_cases[of d repr]
  proof (elim disjE exE conjE)
    assume "map_of d ''Geolocation'' = None"
      "load_data repr (Inr d) = (Some ?C, [])"
    then show ?thesis by simp
  next
    fix g assume "map_of d ''Geolocation'' = Some g" "col_len g = 0"
    with assms(4) show ?thesis by auto
  next
    fix g
    assume g: "map_of d ''Geolocation'' = Some g"
      and l: "load_data repr (Inr d)
      = (Some (set_col ''lon'' (FloatCol (map (\<lambda>x. snd (extract_coords x)) (geo_cells repr g)))
                (set_col ''lat'' (FloatCol (map (\<lambda>x. fst (extract_coords x)) (geo_cells repr g)))
                  ?C)), [])"
    have 1: "set_col ''lat'' (FloatCol (map (\<lambda>x. fst (extract_coords x)) (geo_cells repr g))) ?C
             = ?C @ [(''lat'', FloatCol (map (\<lambda>x. fst (extract_coords x)) (geo_cells repr g)))]"
      by (rule set_col_new[OF lat])
    have "map_of (?C @ [(''lat'', FloatCol (map (\<lambda>x. fst (extract_coords x)) (geo_cells repr g)))])
            ''lon'' = None"
      using lon by (simp add: map_add_def)
    from set_col_new[OF this] 1 l g show ?thesis by simp
  qed
  then show ?thesis
    by (simp add: cleaned_eq[OF assms(1)] col_len_clean clean_object clean_float length_geo_cells)
qed

theorem C6_cleaning_keeps_columns_and_rows_witness:
  "distinct (map fst [(''Topic'', ObjectCol [Some ''Sleep'', Some ''Obesity'']),
                      (''Data_Value'', ObjectCol [Some ''12,5'', Some ''x'']),
                      (''Geolocation'', ObjectCol [Some ''POINT (-87.6298 41.8781)'', None])])
   \<and> load_data no_repr
        (Inr [(''Topic'', ObjectCol [Some ''Sleep'', Some ''Obesity'']),
              (''Data_Value'', ObjectCol [Some ''12,5'', Some ''x'']),
              (''Geolocation'', ObjectCol [Some ''POINT (-87.6298 41.8781)'', None])])
      = (Some [(''Topic'', ObjectCol [Some ''Sleep'', Some ''Obesity'']),
               (''Data_Value'', FloatCol [Some (25 / 2), None]),
               (''Geolocation'', ObjectCol [Some ''POINT (-87.6298 41.8781)'', None]),
               (''lat'', FloatCol [Some (418781 / 10000), None]),
               (''lon'', FloatCol [Some (- 876298 / 10000), None])], [])"
proof -
  let ?d = "[(''Topic'', ObjectCol [Some ''Sleep'', Some ''Obesity'']),
              (''Data_Value'', ObjectCol [Some ''12,5'', Some ''x'']),
              (''Geolocation'', ObjectCol [Some ''POINT (-87.6298 41.8781)'', None])]"
  have a: "distinct (map fst ?d)" by simp
  have b: "map_of ?d ''lat'' = None" by simp
  have c: "map_of ?d ''lon'' = None" by simp
  have g: "map_of ?d ''Geolocation'' = None \<or> (\<exists>g. map_of ?d ''Geolocation'' = Some g \<and> 0 < col_len g)"
    by (simp add: col_len_def)
  from C6_cleaning_keeps_columns_and_rows[OF a b c g, of no_repr] a show ?thesis
    by (simp add: numeric_cols_def clean_object astype_str_def to_numeric_text_def replace_comma_def
        geo_cells_def extract_coords_def text_eval)
qed

text \<open>
  Claim C6 as stated fails on a table that already has a column \<^verbatim>\<open>lat\<close>: the column,
  which is none of the three numeric columns, is overwritten where it stands, and only
  \<^verbatim>\<open>lon\<close> is appended.
\<close>

theorem C6_existing_lat_overwritten:
  "load_data no_repr
     (Inr [(''lat'', ObjectCol [Some ''north'']),
           (''Geolocation'', ObjectCol [Some ''POINT (1.5 2.5)''])])
   = (Some [(''lat'', FloatCol [Some (5 / 2)]),
            (''Geolocation'', ObjectCol [Some ''POINT (1.5 2.5)'']),
            (''lon'', FloatCol [Some (3 / 2)])], [])
   \<and> ''lat'' \<notin> set numeric_cols"
  by (simp add: load_data_def geo_step_def geo_cells_def numeric_cols_def clean_step_def
      set_col_def extract_coords_def text_eval)

text \<open>
  A table with a \<^verbatim>\<open>Geolocation\<close> column and no row is not cleaned: the assignment of
  the two derived columns raises, and \<^verbatim>\<open>load_data\<close> returns no table.
\<close>

lemma load_data_table_without_rows:
  "load_data repr (Inr [(''Data_Value'', ObjectCol []), (''Geolocation'', ObjectCol [])])
   = (None, [LoadError ValueError])"
  by (simp add: load_data_def geo_step_def geo_cells_def numeric_cols_def clean_step_def
      set_col_def clean_object)

section \<open>Row order\<close>






lemma length_reorder: "length (reorder p xs) = length p"
  by (simp add: reorder_def)








end
